theory Spec2Isabelle
  imports Complex_Main
begin

section \<open>Fellow Collection Dashboard: the percentile lookup\<close>

text \<open>
  The program (\<^verbatim>\<open>fellowship_app.py\<close>) holds a constant table of collection percentiles,
  one row per fellowship month, and a function \<^verbatim>\<open>find_percentile_column\<close> that walks
  the percentile columns of the row of a month from left to right and returns the name of
  the last column whose value is at most the current collection. The button handler maps
  that name to a risk category and the category to a coloured glyph.

  Collections and table entries are Python floats. Only their order is ever used
  (\<^verbatim>\<open><=\<close> and \<^verbatim>\<open>==\<close>), and the order of finite floats is the order of the reals they
  denote, so they are modelled as \<^typ>\<open>real\<close>, the table entries by the decimal
  literals of the source. The month is a Python integer, modelled as \<^typ>\<open>int\<close>; the
  comparison with the \<^verbatim>\<open>Month\<close> column is numeric.
\<close>

subsection \<open>Data\<close>

text \<open>The exceptions the modelled operations can raise.\<close>

datatype error = KeyError | IndexError | ValueError

text \<open>
  A data frame is an ordered collection of named columns of equal length. The dictionary
  \<^verbatim>\<open>percentile_data\<close> (lines 19 to 26) lists the columns in insertion order, which is
  the order of \<^verbatim>\<open>df.columns\<close>.
\<close>

type_synonym frame = "(string \<times> real list) list"

definition percentile_data :: "(string \<times> real list) list" where
  "percentile_data =
    [(''Month'', [1, 2, 3, 4, 5, 6, 7, 8, 9]),
     (''p_10'', [0, 2776.037, 11202.374, 13549.61, 19085.83, 24859.675, 25195.28, 26549.521, 30254.91]),
     (''p_25'', [0, 4978.2075, 13689.055, 18025.34, 23503.0175, 27071.215, 29208.02, 30688.22, 33567.065]),
     (''p_50'', [243.87, 7562.965, 18393.82, 23374.07, 27142.26, 32423.515, 33522.465, 33477.645, 38551.74]),
     (''p_75'', [2049.31, 12953.015, 21512.3275, 27968.61, 32186.3275, 35000.2525, 38845.98, 38924.8375, 45185.775]),
     (''p_90'', [2871.238, 14422.303, 24093.88, 32562.358, 35985.399, 38910.38, 42963.32, 43240.285, 48425.45])]"

text \<open>
  \<^verbatim>\<open>pd.DataFrame(data)\<close> on a dictionary of lists keeps the columns and raises
  \<^verbatim>\<open>ValueError\<close> when their lengths differ.
\<close>

definition DataFrame :: "(string \<times> real list) list \<Rightarrow> error + frame" where
  "DataFrame data =
     (case data of
        [] \<Rightarrow> Inr []
      | (c, vs) # rest \<Rightarrow>
          if list_all (\<lambda>(c', vs'). length vs' = length vs) rest then Inr data
          else Inl ValueError)"

definition percentile_df :: frame where
  "percentile_df = percentile_data"

text \<open>The risk category of each percentile band (lines 31 to 38), a dictionary.\<close>

definition risk_cat :: "string \<rightharpoonup> string" where
  "risk_cat = map_of
    [(''p_0'', ''Critical''),
     (''p_10'', ''High Risk''),
     (''p_25'', ''Watch''),
     (''p_50'', ''Watch''),
     (''p_75'', ''On Track''),
     (''p_90'', ''On Track'')]"

text \<open>
  The glyph of each risk category (lines 41 to 46). The source's values are the emoji
  U+1F534, U+1F7E0, U+1F7E1 and U+1F7E2: a red, an orange, a yellow and a green circle.
\<close>

datatype glyph = Red_circle | Orange_circle | Yellow_circle | Green_circle

definition risk_colors :: "string \<rightharpoonup> glyph" where
  "risk_colors = map_of
    [(''Critical'', Red_circle),
     (''High Risk'', Orange_circle),
     (''Watch'', Yellow_circle),
     (''On Track'', Green_circle)]"

subsection \<open>Data frame operations used by the lookup\<close>

text \<open>\<^verbatim>\<open>df[col]\<close>: the values of a column, \<^verbatim>\<open>KeyError\<close> when there is none.\<close>

definition getitem :: "frame \<Rightarrow> string \<Rightarrow> error + real list" where
  "getitem df col = (case map_of df col of None \<Rightarrow> Inl KeyError | Some vs \<Rightarrow> Inr vs)"

text \<open>\<^verbatim>\<open>df[flags]\<close> with a boolean series: the rows whose flag is true, in every column.\<close>

definition select_rows :: "frame \<Rightarrow> bool list \<Rightarrow> frame" where
  "select_rows df flags = map (\<lambda>(c, vs). (c, map fst (filter snd (zip vs flags)))) df"

text \<open>\<^verbatim>\<open>df.empty\<close>: an axis of the frame has length 0.\<close>

definition empty_frame :: "frame \<Rightarrow> bool" where
  "empty_frame df = (case df of [] \<Rightarrow> True | (c, vs) # rest \<Rightarrow> vs = [])"

text \<open>\<^verbatim>\<open>row[col].values[0]\<close>: the entry of a column in the first row of a frame.\<close>

definition values0 :: "frame \<Rightarrow> string \<Rightarrow> error + real" where
  "values0 row col =
     (case getitem row col of
        Inl e \<Rightarrow> Inl e
      | Inr vs \<Rightarrow> (case vs of [] \<Rightarrow> Inl IndexError | v # _ \<Rightarrow> Inr v))"

text \<open>\<^verbatim>\<open>df[df['Month'] == month]\<close> (line 66): the rows of a month.\<close>

definition month_rows :: "frame \<Rightarrow> int \<Rightarrow> error + frame" where
  "month_rows df month =
     (case getitem df ''Month'' of
        Inl e \<Rightarrow> Inl e
      | Inr months \<Rightarrow> Inr (select_rows df (map (\<lambda>v. v = of_int month) months)))"

text \<open>\<^verbatim>\<open>[col for col in df.columns if col != 'Month']\<close> (line 73).\<close>

definition percentile_cols :: "frame \<Rightarrow> string list" where
  "percentile_cols df = filter (\<lambda>col. col \<noteq> ''Month'') (map fst df)"

subsection \<open>The lookup\<close>

text \<open>
  The loop of lines 77 to 81 over the remaining columns, with the running
  \<^verbatim>\<open>last_col\<close>: a column whose value is at most the collection becomes the new
  \<^verbatim>\<open>last_col\<close>, the first other column ends the loop (\<^verbatim>\<open>break\<close>).
\<close>

fun scan_columns :: "frame \<Rightarrow> real \<Rightarrow> string list \<Rightarrow> string \<Rightarrow> error + string" where
  "scan_columns row current_collection [] last_col = Inr last_col"
| "scan_columns row current_collection (col # cols) last_col =
     (case values0 row col of
        Inl e \<Rightarrow> Inl e
      | Inr v \<Rightarrow>
          if v \<le> current_collection
          then scan_columns row current_collection cols col
          else Inr last_col)"

text \<open>
  \<^verbatim>\<open>find_percentile_column\<close> (lines 48 to 83). The result \<open>Inr None\<close> is the source's
  \<^verbatim>\<open>return None\<close> for a month without a row.
\<close>

definition find_percentile_column :: "frame \<Rightarrow> int \<Rightarrow> real \<Rightarrow> error + string option" where
  "find_percentile_column df month current_collection =
     (case month_rows df month of
        Inl e \<Rightarrow> Inl e
      | Inr row \<Rightarrow>
          if empty_frame row then Inr None
          else
            (case scan_columns row current_collection (percentile_cols df) ''p_0'' of
               Inl e \<Rightarrow> Inl e
             | Inr last_col \<Rightarrow> Inr (Some last_col)))"

text \<open>
  The handler of the button (lines 113 to 122), which the specification calls
  \<open>classify\<close>: it looks the percentile up in \<^verbatim>\<open>percentile_df\<close>, reports an invalid
  month when the lookup returned \<^verbatim>\<open>None\<close>, and otherwise reads the risk category and
  its glyph from the two dictionaries (a missing key raises \<^verbatim>\<open>KeyError\<close>). What is
  displayed afterwards is a rendering of these three values.
\<close>

datatype outcome =
  Invalid_month
| Results string string glyph

definition classify :: "int \<Rightarrow> real \<Rightarrow> error + outcome" where
  "classify month_input current_collection_input =
     (case find_percentile_column percentile_df month_input current_collection_input of
        Inl e \<Rightarrow> Inl e
      | Inr None \<Rightarrow> Inr Invalid_month
      | Inr (Some percentile) \<Rightarrow>
          (case risk_cat percentile of
             None \<Rightarrow> Inl KeyError
           | Some risk_category \<Rightarrow>
               (case risk_colors risk_category of
                  None \<Rightarrow> Inl KeyError
                | Some risk_symbol \<Rightarrow> Inr (Results percentile risk_category risk_symbol))))"

subsection \<open>Notions of the specification\<close>

text \<open>
  The specification writes \<open>row(m).p10\<close>, ..., \<open>row(m).p90\<close> for the thresholds of a
  month. They are read from the table the way the lookup reads them: the entry of the
  column in the first row selected for the month.
\<close>

definition threshold :: "int \<Rightarrow> string \<Rightarrow> error + real" where
  "threshold month col =
     (case month_rows percentile_df month of
        Inl e \<Rightarrow> Inl e
      | Inr row \<Rightarrow> values0 row col)"

text \<open>A month has a row in the reference table when the \<^verbatim>\<open>Month\<close> column holds it.\<close>

definition has_row :: "int \<Rightarrow> bool" where
  "has_row month =
     (case getitem percentile_df ''Month'' of
        Inl e \<Rightarrow> False
      | Inr months \<Rightarrow> of_int month \<in> set months)"

text \<open>
  The band order of the specification, \<open>p0 < p10 < p25 < p50 < p75 < p90\<close>, and the
  rank of a band in it.
\<close>

definition band_order :: "string list" where
  "band_order = [''p_0'', ''p_10'', ''p_25'', ''p_50'', ''p_75'', ''p_90'']"

definition band_rank :: "string \<Rightarrow> nat" where
  "band_rank b = length (takeWhile (\<lambda>c. c \<noteq> b) band_order)"

text \<open>
  The reference definition of the specification, written from its words and not from
  the code: the highest band in the order \<open>p_10 < p_25 < p_50 < p_75 < p_90\<close> whose
  threshold in the row of the month is at most the amount, or \<open>p_0\<close> if no band's
  threshold is. It looks at every band, from the highest down, and never stops early.
\<close>

definition highest_band_reference :: "int \<Rightarrow> real \<Rightarrow> string" where
  "highest_band_reference month amount =
     (case filter (\<lambda>b. case threshold month b of Inl e \<Rightarrow> False | Inr t \<Rightarrow> t \<le> amount)
             [''p_90'', ''p_75'', ''p_50'', ''p_25'', ''p_10''] of
        [] \<Rightarrow> ''p_0''
      | b # _ \<Rightarrow> b)"

text \<open>
  The thresholds of a month in column order, \<open>None\<close> when one of them cannot be read.
\<close>

definition row_thresholds :: "int \<Rightarrow> real list option" where
  "row_thresholds month =
     those (map (\<lambda>col. case threshold month col of Inl e \<Rightarrow> None | Inr t \<Rightarrow> Some t)
              (percentile_cols percentile_df))"

section \<open>Properties\<close>

subsection \<open>The table and the walk in general\<close>

lemmas frame_defs = percentile_df_def percentile_data_def getitem_def select_rows_def
  empty_frame_def values0_def month_rows_def percentile_cols_def

lemmas classify_defs = classify_def risk_cat_def risk_colors_def find_percentile_column_def

lemma month_cases:
  "month \<in> {1..9} \<Longrightarrow>
   month = 1 \<or> month = 2 \<or> month = 3 \<or> month = 4 \<or> month = 5 \<or>
   month = 6 \<or> month = 7 \<or> month = 8 \<or> month = (9::int)"
  by auto

text \<open>The frame is built without error: all six columns have nine entries.\<close>

lemma DataFrame_percentile_data: "DataFrame percentile_data = Inr percentile_df"
  by (simp add: DataFrame_def percentile_data_def percentile_df_def)

lemma percentile_cols_percentile_df:
  "percentile_cols percentile_df = [''p_10'', ''p_25'', ''p_50'', ''p_75'', ''p_90'']"
  by (simp add: frame_defs)

lemma band_order_columns: "band_order = ''p_0'' # percentile_cols percentile_df"
  by (simp add: band_order_def percentile_cols_percentile_df)

text \<open>The walk returns its initial \<^verbatim>\<open>last_col\<close> or one of the columns it was given.\<close>

lemma scan_columns_mem:
  "scan_columns row cc cols last_col = Inr b \<Longrightarrow> b \<in> set (last_col # cols)"
  by (induction cols arbitrary: last_col) (auto split: sum.splits if_splits)

text \<open>
  On any row whose columns can all be read and whose values are sorted along the
  columns, the walk with early exit returns the last column whose value is at most the
  collection, as a scan of all columns from the right would.
\<close>

lemma scan_columns_last_true:
  assumes "\<forall>c \<in> set cols. values0 row c = Inr (th c)" and "sorted (map th cols)"
  shows "scan_columns row cc cols last_col =
         Inr (case filter (\<lambda>c. th c \<le> cc) (rev cols) of [] \<Rightarrow> last_col | b # _ \<Rightarrow> b)"
  using assms
proof (induction cols arbitrary: last_col)
  case Nil
  show ?case by simp
next
  case (Cons c cols)
  have rd: "values0 row c = Inr (th c)"
    using Cons.prems(1) by simp
  have later: "\<forall>d \<in> set cols. th c \<le> th d" and srt: "sorted (map th cols)"
    using Cons.prems(2) by simp_all
  show ?case
  proof (cases "th c \<le> cc")
    case True
    have "scan_columns row cc (c # cols) last_col = scan_columns row cc cols c"
      using rd True by simp
    also have "\<dots> = Inr (case filter (\<lambda>c. th c \<le> cc) (rev cols) of [] \<Rightarrow> c | b # _ \<Rightarrow> b)"
      using Cons.IH [of c] Cons.prems(1) srt by simp
    finally show ?thesis
      using True by (simp split: list.splits)
  next
    case False
    then have "filter (\<lambda>c. th c \<le> cc) (rev cols) = []"
      using later by (auto simp: filter_empty_conv)
    then show ?thesis
      using rd False by simp
  qed
qed

text \<open>The row selection itself never fails on the table, whatever the month.\<close>

lemma month_rows_percentile_df: "\<exists>row. month_rows percentile_df month = Inr row"
  by (simp add: month_rows_def getitem_def percentile_df_def percentile_data_def)

lemma row_not_empty:
  "month \<in> {1..9} \<Longrightarrow> month_rows percentile_df month = Inr row \<Longrightarrow> \<not> empty_frame row"
  by (drule month_cases, elim disjE) (auto simp: frame_defs)

lemma threshold_readable:
  "month \<in> {1..9} \<Longrightarrow> c \<in> set (percentile_cols percentile_df) \<Longrightarrow>
   threshold month c = Inr (projr (threshold month c))"
  by (drule month_cases, elim disjE) (auto simp: threshold_def frame_defs)

lemma threshold_sorted:
  "month \<in> {1..9} \<Longrightarrow>
   sorted (map (\<lambda>c. projr (threshold month c)) (percentile_cols percentile_df))"
  by (drule month_cases, elim disjE) (simp_all add: threshold_def frame_defs)

lemma has_row_iff: "has_row month \<longleftrightarrow> month \<in> {1..9}"
  by (auto simp: has_row_def frame_defs)

lemma no_row_None:
  "month \<notin> {1..9} \<Longrightarrow> find_percentile_column percentile_df month amount = Inr None"
  by (auto simp: find_percentile_column_def frame_defs)

lemma row_Some:
  assumes "month \<in> {1..9}"
  shows "\<exists>b \<in> set band_order. find_percentile_column percentile_df month amount = Inr (Some b)"
proof -
  obtain row where row: "month_rows percentile_df month = Inr row"
    using month_rows_percentile_df by blast
  let ?cols = "percentile_cols percentile_df"
  have "\<forall>c \<in> set ?cols. values0 row c = Inr (projr (threshold month c))"
    using threshold_readable [OF assms] row by (simp add: threshold_def)
  from scan_columns_last_true [OF this threshold_sorted [OF assms]]
  obtain b where b: "scan_columns row amount ?cols ''p_0'' = Inr b"
    by blast
  from scan_columns_mem [OF b] have "b \<in> set band_order"
    by (simp add: band_order_columns)
  moreover have "find_percentile_column percentile_df month amount = Inr (Some b)"
    using row row_not_empty [OF assms row] b by (simp add: find_percentile_column_def)
  ultimately show ?thesis by blast
qed

subsection \<open>The walk against the reference definition\<close>

text \<open>
  Claim C1. For every month from 1 to 9 and every amount, the walk with early exit in
  \<^verbatim>\<open>find_percentile_column\<close> returns the band of the reference definition: the highest
  band in the order \<open>p_10 < p_25 < p_50 < p_75 < p_90\<close> whose threshold in the row of the
  month is at most the amount, or \<open>p_0\<close> if there is none. The rows of the table are
  sorted, so the general lemma on the walk applies to each of them.
\<close>

theorem early_exit_scan_refines_reference:
  assumes "month \<in> {1..9}"
  shows "find_percentile_column percentile_df month amount =
         Inr (Some (highest_band_reference month amount))"
proof -
  let ?cols = "percentile_cols percentile_df"
  let ?th = "\<lambda>c. projr (threshold month c)"
  obtain row where row: "month_rows percentile_df month = Inr row"
    using month_rows_percentile_df by blast
  have rd: "\<forall>c \<in> set ?cols. values0 row c = Inr (?th c)"
    using threshold_readable [OF assms] row by (simp add: threshold_def)
  have "scan_columns row amount ?cols ''p_0'' =
        Inr (case filter (\<lambda>c. ?th c \<le> amount) (rev ?cols) of [] \<Rightarrow> ''p_0'' | b # _ \<Rightarrow> b)"
    by (rule scan_columns_last_true [OF rd threshold_sorted [OF assms]])
  moreover have "filter (\<lambda>c. ?th c \<le> amount) (rev ?cols) =
        filter (\<lambda>b. case threshold month b of Inl e \<Rightarrow> False | Inr t \<Rightarrow> t \<le> amount) (rev ?cols)"
  proof (rule filter_cong [OF refl])
    fix c assume "c \<in> set (rev ?cols)"
    then have "threshold month c = Inr (?th c)"
      using threshold_readable [OF assms] by simp
    then show "(?th c \<le> amount) =
               (case threshold month c of Inl e \<Rightarrow> False | Inr t \<Rightarrow> t \<le> amount)"
      by (metis sum.case(2))
  qed
  ultimately have "scan_columns row amount ?cols ''p_0'' =
        Inr (highest_band_reference month amount)"
    by (simp add: highest_band_reference_def percentile_cols_percentile_df)
  then show ?thesis
    using row row_not_empty [OF assms row] by (simp add: find_percentile_column_def)
qed

theorem early_exit_scan_refines_reference_witness:
  "(3::int) \<in> {1..9} \<and>
   find_percentile_column percentile_df 3 15000 = Inr (Some (highest_band_reference 3 15000)) \<and>
   highest_band_reference 3 15000 = ''p_25''"
proof -
  have "highest_band_reference 3 15000 = ''p_25''"
    by (simp add: highest_band_reference_def threshold_def frame_defs)
  then show ?thesis
    using early_exit_scan_refines_reference [of 3 15000] by simp
qed

subsection \<open>Boundary cases\<close>

text \<open>
  Claim C2, as stated, fails. It says that for month 1 and amount 0 the lookup returns
  band \<open>p10\<close> and the category is High Risk, because the walk stops at \<open>p25\<close>. In the
  table the \<open>p_25\<close> entry of month 1 is 0 as well, so the walk does not stop there.
\<close>

theorem month_1_amount_0_not_p10:
  "find_percentile_column percentile_df 1 0 \<noteq> Inr (Some ''p_10'') \<and>
   classify 1 0 \<noteq> Inr (Results ''p_10'' ''High Risk'' Orange_circle)"
  by (simp add: classify_defs frame_defs)

text \<open>
  Claim C2, amended. For month 1 and amount 0 the lookup returns band \<open>p25\<close> (not
  \<open>p0\<close>) and the category is Watch: the \<open>p_10\<close> and \<open>p_25\<close> thresholds of month 1 are
  both 0, the non-strict comparison succeeds at both, and the walk stops at \<open>p_50\<close>,
  whose threshold is 243.87.
\<close>

theorem month_1_amount_0_is_p25:
  "threshold 1 ''p_10'' = Inr 0 \<and>
   threshold 1 ''p_25'' = Inr 0 \<and>
   threshold 1 ''p_50'' = Inr 243.87 \<and>
   find_percentile_column percentile_df 1 0 = Inr (Some ''p_25'') \<and>
   classify 1 0 = Inr (Results ''p_25'' ''Watch'' Yellow_circle)"
  by (simp add: classify_defs threshold_def frame_defs)

subsection \<open>Months without a row\<close>

text \<open>
  Claim C3. The lookup reports a month that is not found (\<^verbatim>\<open>find_percentile_column\<close>
  returns \<^verbatim>\<open>None\<close> and the handler shows the invalid-month error) if and only if the
  month has no row in the reference table, that is, if and only if it is not one of 1
  to 9. In particular months 0 and 10 are reported for every amount, and the report
  differs from the valid result with band \<open>p_0\<close>, which month 2 and amount 0 produce.
\<close>

theorem invalid_month_iff_no_row:
  "(find_percentile_column percentile_df month amount = Inr None \<longleftrightarrow> \<not> has_row month) \<and>
   (classify month amount = Inr Invalid_month \<longleftrightarrow> \<not> has_row month) \<and>
   (has_row month \<longleftrightarrow> month \<in> {1..9}) \<and>
   classify 0 amount = Inr Invalid_month \<and>
   classify 10 amount = Inr Invalid_month \<and>
   classify 2 0 = Inr (Results ''p_0'' ''Critical'' Red_circle) \<and>
   classify 0 amount \<noteq> classify 2 0"
proof -
  have absent: "classify m amount = Inr Invalid_month" if "m \<notin> {1..9}" for m
    using that by (simp add: classify_def no_row_None)
  have present: "find_percentile_column percentile_df month amount \<noteq> Inr None"
    "classify month amount \<noteq> Inr Invalid_month" if "month \<in> {1..9}"
    using row_Some [OF that, of amount]
    by (auto simp: classify_def band_order_def risk_cat_def risk_colors_def)
  have lowest: "classify 2 0 = Inr (Results ''p_0'' ''Critical'' Red_circle)"
    by (simp add: classify_defs frame_defs)
  show ?thesis
    using absent [of month] present lowest absent [of 0] absent [of 10]
      no_row_None [of month amount]
    by (auto simp: has_row_iff)
qed

theorem invalid_month_iff_no_row_witness:
  "classify 10 500 = Inr Invalid_month \<and> \<not> has_row 10 \<and>
   classify 3 15000 \<noteq> Inr Invalid_month \<and> has_row 3"
  using invalid_month_iff_no_row [of 10 500] invalid_month_iff_no_row [of 3 15000]
  by simp

subsection \<open>Monotonicity in the amount\<close>

text \<open>
  Claim C4. For every month from 1 to 9 and any two amounts \<open>a1 \<le> a2\<close>, both
  classifications succeed and the band for \<open>a1\<close> is at most the band for \<open>a2\<close> in
  the order \<open>p0 < p10 < p25 < p50 < p75 < p90\<close>.
\<close>

theorem band_monotone_in_amount:
  assumes "month \<in> {1..9}" and "a1 \<le> a2"
  shows "\<exists>b1 c1 g1 b2 c2 g2.
           classify month a1 = Inr (Results b1 c1 g1) \<and>
           classify month a2 = Inr (Results b2 c2 g2) \<and>
           band_rank b1 \<le> band_rank b2"
  using month_cases [OF assms(1)] assms(2)
  by (elim disjE) (simp_all add: classify_defs frame_defs band_rank_def band_order_def)

theorem band_monotone_in_amount_witness:
  "(3::int) \<in> {1..9} \<and> (100::real) \<le> 15000 \<and>
   (\<exists>b1 c1 g1 b2 c2 g2.
      classify 3 100 = Inr (Results b1 c1 g1) \<and>
      classify 3 15000 = Inr (Results b2 c2 g2) \<and>
      band_rank b1 \<le> band_rank b2)"
  using band_monotone_in_amount [of 3 100 15000] by simp

subsection \<open>The ends of the band order\<close>

text \<open>
  Claim C5. For every month from 1 to 9 and every amount at or above the \<open>p_90\<close>
  threshold of the month, the amount equal to the threshold included, the lookup returns
  band \<open>p_90\<close> and the category is On Track; no amount is too large.
\<close>

theorem at_or_above_p90_on_track:
  assumes "month \<in> {1..9}" and "threshold month ''p_90'' = Inr t" and "t \<le> amount"
  shows "find_percentile_column percentile_df month amount = Inr (Some ''p_90'') \<and>
         classify month amount = Inr (Results ''p_90'' ''On Track'' Green_circle) \<and>
         classify month t = Inr (Results ''p_90'' ''On Track'' Green_circle)"
  using month_cases [OF assms(1)] assms(2,3)
  by (elim disjE) (auto simp add: classify_defs frame_defs threshold_def)

theorem at_or_above_p90_on_track_witness:
  "(9::int) \<in> {1..9} \<and> threshold 9 ''p_90'' = Inr 48425.45 \<and> (48425.45::real) \<le> 50000 \<and>
   find_percentile_column percentile_df 9 50000 = Inr (Some ''p_90'') \<and>
   classify 9 50000 = Inr (Results ''p_90'' ''On Track'' Green_circle) \<and>
   classify 9 48425.45 = Inr (Results ''p_90'' ''On Track'' Green_circle)"
proof -
  have h: "threshold 9 ''p_90'' = Inr 48425.45"
    by (simp add: threshold_def frame_defs)
  show ?thesis
    using at_or_above_p90_on_track [of 9 "48425.45" 50000] h by simp
qed

text \<open>
  Claim C6. For every month from 1 to 9 whose \<open>p_10\<close> threshold is positive and
  every amount strictly below that threshold, the lookup returns band \<open>p_0\<close> and the
  category is Critical.
\<close>

theorem below_p10_critical:
  assumes "month \<in> {1..9}" and "threshold month ''p_10'' = Inr t" and "0 < t"
    and "amount < t"
  shows "find_percentile_column percentile_df month amount = Inr (Some ''p_0'') \<and>
         classify month amount = Inr (Results ''p_0'' ''Critical'' Red_circle)"
  using month_cases [OF assms(1)] assms(2,3,4)
  by (elim disjE) (auto simp add: classify_defs frame_defs threshold_def)

theorem below_p10_critical_witness:
  "(2::int) \<in> {1..9} \<and> threshold 2 ''p_10'' = Inr 2776.037 \<and> (0::real) < 2776.037 \<and>
   (100::real) < 2776.037 \<and>
   find_percentile_column percentile_df 2 100 = Inr (Some ''p_0'') \<and>
   classify 2 100 = Inr (Results ''p_0'' ''Critical'' Red_circle)"
proof -
  have h: "threshold 2 ''p_10'' = Inr 2776.037"
    by (simp add: threshold_def frame_defs)
  show ?thesis
    using below_p10_critical [of 2 "2776.037" 100] h by simp
qed

text \<open>
  Claim C9. For every month from 1 to 9 and every strictly negative amount, the lookup
  raises no error and returns band \<open>p_0\<close>, so the category is Critical: no \<open>p_10\<close>
  threshold of the table is negative and the first comparison fails.
\<close>

theorem negative_amount_critical:
  assumes "month \<in> {1..9}" and "amount < 0"
  shows "find_percentile_column percentile_df month amount = Inr (Some ''p_0'') \<and>
         classify month amount = Inr (Results ''p_0'' ''Critical'' Red_circle)"
  using month_cases [OF assms(1)] assms(2)
  by (elim disjE) (simp_all add: classify_defs frame_defs)

theorem negative_amount_critical_witness:
  "(1::int) \<in> {1..9} \<and> (- 1::real) < 0 \<and>
   find_percentile_column percentile_df 1 (- 1) = Inr (Some ''p_0'') \<and>
   classify 1 (- 1) = Inr (Results ''p_0'' ''Critical'' Red_circle)"
  using negative_amount_critical [of 1 "- 1"] by simp

subsection \<open>The category mapping\<close>

text \<open>
  Claim C7. The mapping from bands to categories is fixed and total on the six bands:
  \<open>p_0\<close> maps to Critical, \<open>p_10\<close> to High Risk, \<open>p_25\<close> and \<open>p_50\<close> to Watch,
  \<open>p_75\<close> and \<open>p_90\<close> to On Track; its keys are the six bands and its values the four
  categories, and as a dictionary it gives each band one category.
\<close>

theorem risk_cat_fixed_total:
  "risk_cat ''p_0'' = Some ''Critical'' \<and>
   risk_cat ''p_10'' = Some ''High Risk'' \<and>
   risk_cat ''p_25'' = Some ''Watch'' \<and>
   risk_cat ''p_50'' = Some ''Watch'' \<and>
   risk_cat ''p_75'' = Some ''On Track'' \<and>
   risk_cat ''p_90'' = Some ''On Track'' \<and>
   dom risk_cat = set band_order \<and>
   ran risk_cat = {''Critical'', ''High Risk'', ''Watch'', ''On Track''}"
  by (simp add: risk_cat_def band_order_def dom_map_of_conv_image_fst)

subsection \<open>The invariant of the table\<close>

text \<open>
  Claim C8. For every month from 1 to 9 the five thresholds of the row can be read,
  are in non-decreasing order along \<open>p_10\<close>, \<open>p_25\<close>, \<open>p_50\<close>, \<open>p_75\<close>, \<open>p_90\<close>, and
  are all non-negative.
\<close>

theorem table_rows_monotone_nonneg:
  assumes "month \<in> {1..9}"
  shows "\<exists>ts. row_thresholds month = Some ts \<and> length ts = 5 \<and> sorted ts \<and>
              (\<forall>t \<in> set ts. 0 \<le> t)"
  using month_cases [OF assms(1)]
  by (elim disjE) (simp_all add: frame_defs threshold_def row_thresholds_def)

theorem table_rows_monotone_nonneg_witness:
  "(3::int) \<in> {1..9} \<and>
   (\<exists>ts. row_thresholds 3 = Some ts \<and> length ts = 5 \<and> sorted ts \<and> (\<forall>t \<in> set ts. 0 \<le> t))"
  using table_rows_monotone_nonneg [of 3] by simp

subsection \<open>The result is always a band\<close>

text \<open>
  Claim C10. For every month from 1 to 9 and every amount, \<^verbatim>\<open>find_percentile_column\<close>
  returns one of \<open>p_0\<close>, \<open>p_10\<close>, \<open>p_25\<close>, \<open>p_50\<close>, \<open>p_75\<close>, \<open>p_90\<close> and never
  \<^verbatim>\<open>None\<close>, so the lookups in \<^verbatim>\<open>risk_cat\<close> and \<^verbatim>\<open>risk_colors\<close> that follow find
  their keys and the handler produces a result.
\<close>

theorem lookup_returns_known_band:
  assumes "month \<in> {1..9}"
  shows "\<exists>b c g. find_percentile_column percentile_df month amount = Inr (Some b) \<and>
           b \<in> {''p_0'', ''p_10'', ''p_25'', ''p_50'', ''p_75'', ''p_90''} \<and>
           risk_cat b = Some c \<and> risk_colors c = Some g \<and>
           classify month amount = Inr (Results b c g)"
proof -
  from row_Some [OF assms, of amount] obtain b where
    b: "b \<in> set band_order" "find_percentile_column percentile_df month amount = Inr (Some b)"
    by blast
  from b(1) obtain c g where cg: "risk_cat b = Some c" "risk_colors c = Some g"
    by (auto simp: band_order_def risk_cat_def risk_colors_def)
  from b(1) have "b \<in> {''p_0'', ''p_10'', ''p_25'', ''p_50'', ''p_75'', ''p_90''}"
    by (simp add: band_order_def)
  with b(2) cg show ?thesis
    by (simp add: classify_def)
qed

theorem lookup_returns_known_band_witness:
  "(5::int) \<in> {1..9} \<and>
   (\<exists>b c g. find_percentile_column percentile_df 5 123 = Inr (Some b) \<and>
      b \<in> {''p_0'', ''p_10'', ''p_25'', ''p_50'', ''p_75'', ''p_90''} \<and>
      risk_cat b = Some c \<and> risk_colors c = Some g \<and>
      classify 5 123 = Inr (Results b c g))"
  using lookup_returns_known_band [of 5 123] by simp

end
